theory Spec2Isabelle
  imports Main
begin

section \<open>chartmuseum2oci: migration of Helm charts from ChartMuseum to an OCI registry\<close>

text \<open>
  A shallow embedding of \<^verbatim>\<open>chartmuseum2oci/main.go\<close>. The program talks to the outside
  world only through a handful of library calls (\<^verbatim>\<open>exec.Cmd.Run\<close>, \<^verbatim>\<open>http.NewRequest\<close>,
  \<^verbatim>\<open>http.Client.Do\<close>, \<^verbatim>\<open>io.ReadAll\<close>, \<^verbatim>\<open>os.WriteFile\<close>, \<^verbatim>\<open>os.Remove\<close>, the logger,
  the progress bar and the chart discovery). Each of them is an entry of an environment
  record that decides the outcome of the call from the world as it is at the moment of the
  call, so that every assignment of outcomes, also one that changes from call to call, is an
  environment. Every call is appended to a trace, and the working directory, where the charts
  are staged, is a map from file names to contents.
\<close>

subsection \<open>Data\<close>

type_synonym bytes = "nat list"

text \<open>\<^verbatim>\<open>type HelmChart struct { Name, Project, Version string }\<close>\<close>

record HelmChart =
  Name :: string
  Project :: string
  Version :: string

text \<open>The package-level variables that \<^verbatim>\<open>initFlags\<close> fills from the command line.\<close>

record config =
  sourceHarborURL :: string
  sourceHarborUsername :: string
  sourceHarborPassword :: string
  destinationHarborURL :: string
  destinationHarborUsername :: string
  destinationHarborPassword :: string
  destPath :: string

text \<open>
  Go errors. \<open>ExtErr\<close> is an error made by a library or by the operating system,
  \<open>StatusErr n\<close> is \<^verbatim>\<open>fmt.Errorf("received status %d", n)\<close>, and \<open>Wrap e msg\<close> is
  \<^verbatim>\<open>errors.Wrap(e, msg)\<close>.
\<close>

datatype err = ExtErr string | StatusErr nat | Wrap err string

text \<open>The request that \<^verbatim>\<open>pullChartFromSource\<close> builds, and the response it reads.\<close>

record request =
  Method :: string
  URL :: string
  BasicAuth :: "(string \<times> string) option"

record response =
  StatusCode :: nat
  Body :: "err + bytes"

text \<open>
  The calls the program makes, with their arguments. \<open>ClientDo req t\<close> is
  \<^verbatim>\<open>(&http.Client{Timeout: t}).Do(req)\<close>, the duration in nanoseconds as in Go;
  \<open>CmdRun name args\<close> is \<^verbatim>\<open>exec.Command(name, args...).Run()\<close>, which takes neither a
  context nor a duration.
\<close>

datatype event =
    CmdRun string "string list"
  | ClientDo request nat
  | OsWriteFile string bytes nat
  | OsRemove string
  | GetCharts
  | BarDefault int
  | BarAdd int
  | LogPrintf string int
  | LogPrintln err
  | LogFatal err

record world =
  fs :: "string \<Rightarrow> bytes option"
  trace :: "event list"

text \<open>
  The environment. \<open>cmd_Run\<close> answers \<open>None\<close> when the command exits with status 0 and
  the error with the captured standard error otherwise; \<open>os_WriteFile\<close> answers \<open>None\<close>
  when the file is written, and otherwise the error with what is left at that name (nothing,
  the old contents, or a truncated file); \<open>getHarborChartmuseumCharts\<close> is the discovery,
  whose body is not part of \<^verbatim>\<open>main.go\<close>.
\<close>

record env =
  cmd_Run :: "world \<Rightarrow> string \<Rightarrow> string list \<Rightarrow> (err \<times> string) option"
  http_NewRequest :: "string \<Rightarrow> string \<Rightarrow> err option"
  client_Do :: "world \<Rightarrow> request \<Rightarrow> nat \<Rightarrow> err + response"
  os_WriteFile :: "world \<Rightarrow> string \<Rightarrow> bytes \<Rightarrow> nat \<Rightarrow> (err \<times> bytes option) option"
  os_Remove :: "world \<Rightarrow> string \<Rightarrow> err option"
  getHarborChartmuseumCharts :: "world \<Rightarrow> err + HelmChart list"

subsection \<open>Constants\<close>

definition fileMode :: nat where
  "fileMode = 6 * 64"

definition helmBinaryPath :: string where
  "helmBinaryPath = ''helm''"

definition Second :: nat where
  "Second = 1000000000"

definition timeout :: nat where
  "timeout = 5 * Second"

definition MethodGet :: string where
  "MethodGet = ''GET''"

definition StatusOK :: nat where
  "StatusOK = 200"

subsection \<open>Functions\<close>

definition emit :: "event \<Rightarrow> world \<Rightarrow> world" where
  "emit ev w = w\<lparr>trace := trace w @ [ev]\<rparr>"

definition ChartFileName :: "HelmChart \<Rightarrow> string" where
  "ChartFileName hc = Name hc @ ''-'' @ Version hc @ ''.tgz''"

definition helmLogin :: "env \<Rightarrow> string \<Rightarrow> string \<Rightarrow> string \<Rightarrow> world \<Rightarrow> err option \<times> world" where
  "helmLogin E registry username password w =
     (let args = [''registry'', ''login'', ''--username'', username, ''--password'', password, registry]
      in case cmd_Run E w helmBinaryPath args of
           Some (e, stdErr) \<Rightarrow>
             (Some (Wrap e (''Failed to execute helm login: '' @ stdErr)),
              emit (CmdRun helmBinaryPath args) w)
         | None \<Rightarrow> (None, emit (CmdRun helmBinaryPath args) w))"

text \<open>
  \<^verbatim>\<open>pullChartFromSource\<close>. The result of \<^verbatim>\<open>io.ReadAll(res.Body)\<close> is the field
  \<open>Body\<close> of the response; the deferred \<^verbatim>\<open>res.Body.Close()\<close> has no result and touches
  nothing of the world, and is left out.
\<close>

definition pullChartFromSource :: "env \<Rightarrow> config \<Rightarrow> HelmChart \<Rightarrow> world \<Rightarrow> err option \<times> world" where
  "pullChartFromSource E c helmChart w =
     (let chartFileName = ChartFileName helmChart;
          sourceURL = sourceHarborURL c @ ''/chartrepo/'' @ Project helmChart @ ''/charts/'' @ chartFileName
      in case http_NewRequest E MethodGet sourceURL of
           Some e \<Rightarrow> (Some e, w)
         | None \<Rightarrow>
            (let req = \<lparr>Method = MethodGet, URL = sourceURL,
                        BasicAuth = Some (sourceHarborUsername c, sourceHarborPassword c)\<rparr>;
                 w1 = emit (ClientDo req timeout) w
             in case client_Do E w req timeout of
                  Inl e \<Rightarrow> (Some e, w1)
                | Inr res \<Rightarrow>
                   if StatusCode res \<noteq> StatusOK then (Some (StatusErr (StatusCode res)), w1)
                   else
                     (case Body res of
                        Inl e \<Rightarrow> (Some e, w1)
                      | Inr resBody \<Rightarrow>
                         (let w2 = emit (OsWriteFile chartFileName resBody fileMode) w1
                          in case os_WriteFile E w1 chartFileName resBody fileMode of
                               Some (e, left) \<Rightarrow> (Some e, w2\<lparr>fs := (fs w2)(chartFileName := left)\<rparr>)
                             | None \<Rightarrow> (None, w2\<lparr>fs := (fs w2)(chartFileName \<mapsto> resBody)\<rparr>)))))"

definition pushChartToDestination :: "env \<Rightarrow> config \<Rightarrow> HelmChart \<Rightarrow> world \<Rightarrow> err option \<times> world" where
  "pushChartToDestination E c helmChart w =
     (let repoURL = ''oci://'' @ destinationHarborURL c @ ''/'' @ Project helmChart @ destPath c;
          args = [''push'', ChartFileName helmChart, repoURL]
      in case cmd_Run E w helmBinaryPath args of
           Some (e, stdErr) \<Rightarrow>
             (Some (Wrap e (''Failed to execute helm push: '' @ stdErr)),
              emit (CmdRun helmBinaryPath args) w)
         | None \<Rightarrow> (None, emit (CmdRun helmBinaryPath args) w))"

definition removeChartFile :: "env \<Rightarrow> HelmChart \<Rightarrow> world \<Rightarrow> err option \<times> world" where
  "removeChartFile E helmChart w =
     (let w1 = emit (OsRemove (ChartFileName helmChart)) w
      in case os_Remove E w (ChartFileName helmChart) of
           Some e \<Rightarrow> (Some e, w1)
         | None \<Rightarrow> (None, w1\<lparr>fs := (fs w1)(ChartFileName helmChart := None)\<rparr>))"

definition migrateChartFromSourceToDestination ::
  "env \<Rightarrow> config \<Rightarrow> HelmChart \<Rightarrow> world \<Rightarrow> err option \<times> world" where
  "migrateChartFromSourceToDestination E c helmChart w =
     (case pullChartFromSource E c helmChart w of
        (Some e, w1) \<Rightarrow> (Some (Wrap e ''Failed to pull chart from source''), w1)
      | (None, w1) \<Rightarrow>
         (case pushChartToDestination E c helmChart w1 of
            (Some e, w2) \<Rightarrow> (Some (Wrap e ''Failed to push chart to destination''), w2)
          | (None, w2) \<Rightarrow> removeChartFile E helmChart w2))"

text \<open>
  The \<^verbatim>\<open>for ... range helmChartsToMigrate\<close> loop of \<^verbatim>\<open>main\<close>, on the pair of the local
  \<^verbatim>\<open>errorCount\<close> and the world.
\<close>

fun migrateLoop :: "env \<Rightarrow> config \<Rightarrow> HelmChart list \<Rightarrow> int \<times> world \<Rightarrow> int \<times> world" where
  "migrateLoop E c [] (errorCount, w) = (errorCount, w)"
| "migrateLoop E c (helmChart # rest) (errorCount, w) =
     (case migrateChartFromSourceToDestination E c helmChart (emit (BarAdd 1) w) of
        (Some e, w1) \<Rightarrow>
          migrateLoop E c rest
            (errorCount + 1, emit (LogPrintln (Wrap e ''Failed to migrate Helm chart'')) w1)
      | (None, w1) \<Rightarrow> migrateLoop E c rest (errorCount, w1))"

text \<open>\<^verbatim>\<open>log.Fatal(e)\<close> prints and calls \<^verbatim>\<open>os.Exit(1)\<close>: the run ends with status 1.\<close>

definition log_Fatal :: "err \<Rightarrow> world \<Rightarrow> nat \<times> world" where
  "log_Fatal e w = (1, emit (LogFatal e) w)"

text \<open>
  \<^verbatim>\<open>main\<close>: the exit status of the process and the world it leaves. The flags are
  parsed and checked by \<^verbatim>\<open>init\<close> before \<^verbatim>\<open>main\<close> starts; here they are the record
  \<open>c\<close>, and \<^verbatim>\<open>main\<close> itself never looks at whether the two URLs are empty.
\<close>

definition main :: "env \<Rightarrow> config \<Rightarrow> world \<Rightarrow> nat \<times> world" where
  "main E c w =
     (case helmLogin E (sourceHarborURL c) (sourceHarborUsername c) (sourceHarborPassword c) w of
        (Some e, w1) \<Rightarrow> log_Fatal (Wrap e ''Failed to login to source Harbor'') w1
      | (None, w1) \<Rightarrow>
         (case helmLogin E (destinationHarborURL c) (destinationHarborUsername c)
                 (destinationHarborPassword c) w1 of
            (Some e, w2) \<Rightarrow> log_Fatal (Wrap e ''Failed to login to destination Harbor'') w2
          | (None, w2) \<Rightarrow>
             (case getHarborChartmuseumCharts E w2 of
                Inl e \<Rightarrow>
                  log_Fatal (Wrap e ''Failed to retrieve Helm charts from source'') (emit GetCharts w2)
              | Inr helmChartsToMigrate \<Rightarrow>
                 (let n = int (length helmChartsToMigrate);
                      w3 = emit (LogPrintf ''%d Helm charts to migrate'' n) (emit GetCharts w2);
                      w4 = emit (BarDefault n) w3
                  in case migrateLoop E c helmChartsToMigrate (0, w4) of
                       (errorCount, w5) \<Rightarrow>
                         (0, emit (LogPrintf ''%d Helm charts successfully migrated'' (n - errorCount)) w5)))))"

subsection \<open>Observing a run\<close>

text \<open>The calls made between two worlds of one run: what the trace has gained.\<close>

definition new_events :: "world \<Rightarrow> world \<Rightarrow> event list" where
  "new_events w w' = drop (length (trace w)) (trace w')"

fun is_fetch :: "event \<Rightarrow> bool" where
  "is_fetch (ClientDo req t) = True"
| "is_fetch ev = False"

fun is_cmd :: "event \<Rightarrow> bool" where
  "is_cmd (CmdRun name args) = True"
| "is_cmd ev = False"

fun is_push :: "event \<Rightarrow> bool" where
  "is_push (CmdRun name (a # args)) = (a = ''push'')"
| "is_push ev = False"

fun is_login :: "event \<Rightarrow> bool" where
  "is_login (CmdRun name (a # b # args)) = (a = ''registry'' \<and> b = ''login'')"
| "is_login ev = False"

fun is_write :: "event \<Rightarrow> bool" where
  "is_write (OsWriteFile name data mode) = True"
| "is_write ev = False"

fun is_remove :: "event \<Rightarrow> bool" where
  "is_remove (OsRemove name) = True"
| "is_remove ev = False"

fun is_discovery :: "event \<Rightarrow> bool" where
  "is_discovery GetCharts = True"
| "is_discovery ev = False"

fun is_bar_add :: "event \<Rightarrow> bool" where
  "is_bar_add (BarAdd k) = True"
| "is_bar_add ev = False"

fun is_diagnostic :: "event \<Rightarrow> bool" where
  "is_diagnostic (LogPrintln e) = True"
| "is_diagnostic ev = False"

text \<open>
  The bound on the duration of a call, when the call has one. A \<^verbatim>\<open>http.Client\<close> whose
  \<^verbatim>\<open>Timeout\<close> is zero has none; \<^verbatim>\<open>exec.Command(...).Run()\<close> waits for the command to
  exit, however long that takes.
\<close>

fun call_timeout :: "event \<Rightarrow> nat option" where
  "call_timeout (ClientDo req t) = (if t = 0 then None else Some t)"
| "call_timeout ev = None"

text \<open>The calls of one transfer, with the arguments the chart and the flags give them.\<close>

definition fetch_url :: "config \<Rightarrow> HelmChart \<Rightarrow> string" where
  "fetch_url c hc = sourceHarborURL c @ ''/chartrepo/'' @ Project hc @ ''/charts/'' @ ChartFileName hc"

definition fetch_request :: "config \<Rightarrow> HelmChart \<Rightarrow> request" where
  "fetch_request c hc =
     \<lparr>Method = ''GET'', URL = fetch_url c hc,
      BasicAuth = Some (sourceHarborUsername c, sourceHarborPassword c)\<rparr>"

definition fetch_call :: "config \<Rightarrow> HelmChart \<Rightarrow> event" where
  "fetch_call c hc = ClientDo (fetch_request c hc) timeout"

definition persist_call :: "HelmChart \<Rightarrow> bytes \<Rightarrow> event" where
  "persist_call hc body = OsWriteFile (ChartFileName hc) body fileMode"

definition push_call :: "config \<Rightarrow> HelmChart \<Rightarrow> event" where
  "push_call c hc =
     CmdRun ''helm''
       [''push'', ChartFileName hc, ''oci://'' @ destinationHarborURL c @ ''/'' @ Project hc @ destPath c]"

definition cleanup_call :: "HelmChart \<Rightarrow> event" where
  "cleanup_call hc = OsRemove (ChartFileName hc)"

definition login_call :: "string \<Rightarrow> string \<Rightarrow> string \<Rightarrow> event" where
  "login_call registry username password =
     CmdRun ''helm'' [''registry'', ''login'', ''--username'', username, ''--password'', password, registry]"

definition transfer_calls :: "config \<Rightarrow> HelmChart \<Rightarrow> bytes \<Rightarrow> event list" where
  "transfer_calls c hc body = [fetch_call c hc, persist_call hc body, push_call c hc, cleanup_call hc]"

text \<open>
  The fetch fails before anything is written: the request cannot be built, the transport
  fails, the status is not 200, or the body cannot be read.
\<close>

definition fetch_fails :: "env \<Rightarrow> config \<Rightarrow> HelmChart \<Rightarrow> world \<Rightarrow> bool" where
  "fetch_fails E c hc w =
     (case http_NewRequest E MethodGet (fetch_url c hc) of
        Some e \<Rightarrow> True
      | None \<Rightarrow>
         (case client_Do E w (fetch_request c hc) timeout of
            Inl e \<Rightarrow> True
          | Inr res \<Rightarrow> StatusCode res \<noteq> StatusOK \<or> (case Body res of Inl e \<Rightarrow> True | Inr b \<Rightarrow> False)))"

subsection \<open>Example runs\<close>

definition chart_redis :: HelmChart where
  "chart_redis = \<lparr>Name = ''redis'', Project = ''db'', Version = ''1.0.0''\<rparr>"

definition chart_nginx :: HelmChart where
  "chart_nginx = \<lparr>Name = ''nginx'', Project = ''web'', Version = ''2.3.1''\<rparr>"

definition chart_redis_cache :: HelmChart where
  "chart_redis_cache = \<lparr>Name = ''redis'', Project = ''cache'', Version = ''1.0.0''\<rparr>"

definition cfg0 :: config where
  "cfg0 = \<lparr>sourceHarborURL = ''https://old.example'', sourceHarborUsername = ''alice'',
           sourceHarborPassword = ''s1'', destinationHarborURL = ''new.example'',
           destinationHarborUsername = ''bob'', destinationHarborPassword = ''s2'',
           destPath = ''/charts''\<rparr>"

definition w0 :: world where
  "w0 = \<lparr>fs = (\<lambda>name. None), trace = []\<rparr>"

text \<open>Every call succeeds; the source answers 200 with a three-byte chart.\<close>

definition env_ok :: env where
  "env_ok =
     \<lparr>cmd_Run = (\<lambda>w name args. None),
      http_NewRequest = (\<lambda>m u. None),
      client_Do = (\<lambda>w req t. Inr \<lparr>StatusCode = 200, Body = Inr [1, 2, 3]\<rparr>),
      os_WriteFile = (\<lambda>w name data mode. None),
      os_Remove = (\<lambda>w name. None),
      getHarborChartmuseumCharts = (\<lambda>w. Inr [chart_redis, chart_nginx])\<rparr>"

text \<open>As \<open>env_ok\<close>, but \<^verbatim>\<open>helm push\<close> exits with status 1.\<close>

definition env_push_fails :: env where
  "env_push_fails =
     env_ok\<lparr>cmd_Run := (\<lambda>w name args.
        if take 1 args = [''push''] then Some (ExtErr ''exit status 1'', ''denied'') else None)\<rparr>"

text \<open>As \<open>env_ok\<close>, but the staged file cannot be removed.\<close>

definition env_remove_fails :: env where
  "env_remove_fails = env_ok\<lparr>os_Remove := (\<lambda>w name. Some (ExtErr ''permission denied''))\<rparr>"

text \<open>As \<open>env_ok\<close>, but the source answers 404 for the nginx chart.\<close>

definition env_nginx_404 :: env where
  "env_nginx_404 =
     env_ok\<lparr>client_Do := (\<lambda>w req t.
        if URL req = ''https://old.example/chartrepo/web/charts/nginx-2.3.1.tgz''
        then Inr \<lparr>StatusCode = 404, Body = Inr []\<rparr>
        else Inr \<lparr>StatusCode = 200, Body = Inr [1, 2, 3]\<rparr>)\<rparr>"

text \<open>As \<open>env_ok\<close>, but the login to the destination registry is refused.\<close>

definition env_dest_login_fails :: env where
  "env_dest_login_fails =
     env_ok\<lparr>cmd_Run := (\<lambda>w name args.
        if take 2 args = [''registry'', ''login''] \<and> last args = ''new.example''
        then Some (ExtErr ''exit status 1'', ''unauthorized'') else None)\<rparr>"

text \<open>
  The source answers 200 to both requests, with a different chart for the project
  \<^verbatim>\<open>db\<close> than for any other project.
\<close>

definition env_two_projects :: env where
  "env_two_projects =
     env_ok\<lparr>client_Do := (\<lambda>w req t.
        if URL req = ''https://old.example/chartrepo/db/charts/redis-1.0.0.tgz''
        then Inr \<lparr>StatusCode = 200, Body = Inr [1]\<rparr>
        else Inr \<lparr>StatusCode = 200, Body = Inr [2]\<rparr>)\<rparr>"

text \<open>As \<open>env_ok\<close>, but the write of the staged file fails and leaves an empty file.\<close>

definition env_write_fails :: env where
  "env_write_fails =
     env_ok\<lparr>os_WriteFile := (\<lambda>w name data mode. Some (ExtErr ''no space left on device'', Some []))\<rparr>"

section \<open>Properties\<close>

subsection \<open>Unfolding and the trace of one transfer\<close>

lemmas model_defs = main_def helmLogin_def log_Fatal_def emit_def
  migrateChartFromSourceToDestination_def pullChartFromSource_def pushChartToDestination_def
  removeChartFile_def ChartFileName_def helmBinaryPath_def MethodGet_def StatusOK_def
  timeout_def Second_def fileMode_def Let_def
lemmas call_defs = fetch_call_def fetch_request_def fetch_url_def persist_call_def push_call_def
  cleanup_call_def login_call_def transfer_calls_def
lemmas example_defs = env_ok_def env_push_fails_def env_remove_fails_def env_nginx_404_def
  env_dest_login_fails_def env_two_projects_def env_write_fails_def cfg0_def w0_def chart_redis_def chart_nginx_def chart_redis_cache_def

lemma new_events_append: "trace w' = trace w @ evs \<Longrightarrow> new_events w w' = evs"
  by (simp add: new_events_def)

lemma new_events_same: "new_events w w = []"
  by (simp add: new_events_def)

lemma new_events_emit: "new_events w (emit ev w) = [ev]"
  by (simp add: new_events_def emit_def)

lemma pull_cases:
  assumes "pullChartFromSource E c hc w = (r, w1)"
  shows "(r \<noteq> None \<and> w1 = w) \<or>
         (r \<noteq> None \<and> w1 = emit (fetch_call c hc) w) \<or>
         (\<exists>body. trace w1 = trace w @ [fetch_call c hc, persist_call hc body] \<and>
            (r = None \<longrightarrow> fs w1 = (fs w)(ChartFileName hc \<mapsto> body)))"
  using assms
  unfolding pullChartFromSource_def Let_def fetch_call_def fetch_request_def fetch_url_def
    persist_call_def MethodGet_def emit_def
  by (auto split: option.splits sum.splits if_splits prod.splits)

lemma push_world: "snd (pushChartToDestination E c hc w) = emit (push_call c hc) w"
  unfolding pushChartToDestination_def Let_def push_call_def helmBinaryPath_def
  by (simp split: option.splits prod.splits)

lemma remove_trace: "trace (snd (removeChartFile E hc w)) = trace w @ [cleanup_call hc]"
  unfolding removeChartFile_def Let_def cleanup_call_def emit_def
  by (simp split: option.splits)

lemma remove_result: "fst (removeChartFile E hc w) = os_Remove E w (ChartFileName hc)"
  unfolding removeChartFile_def Let_def
  by (simp split: option.splits)

lemma migrate_pull_fails:
  "pullChartFromSource E c hc w = (Some e, w1) \<Longrightarrow>
   migrateChartFromSourceToDestination E c hc w = (Some (Wrap e ''Failed to pull chart from source''), w1)"
  by (simp add: migrateChartFromSourceToDestination_def)

lemma migrate_push_fails:
  "pullChartFromSource E c hc w = (None, w1) \<Longrightarrow>
   pushChartToDestination E c hc w1 = (Some e, w2) \<Longrightarrow>
   migrateChartFromSourceToDestination E c hc w = (Some (Wrap e ''Failed to push chart to destination''), w2)"
  by (simp add: migrateChartFromSourceToDestination_def)

lemma migrate_push_ok:
  "pullChartFromSource E c hc w = (None, w1) \<Longrightarrow>
   pushChartToDestination E c hc w1 = (None, w2) \<Longrightarrow>
   migrateChartFromSourceToDestination E c hc w = removeChartFile E hc w2"
  by (simp add: migrateChartFromSourceToDestination_def)

lemma pull_trace:
  assumes "pullChartFromSource E c hc w = (r, w1)"
  shows "\<exists>body n. n \<le> 2 \<and> trace w1 = trace w @ take n (transfer_calls c hc body) \<and>
           (r = None \<longrightarrow> n = 2)"
proof -
  from pull_cases [OF assms] consider
      (a) "r \<noteq> None" "w1 = w"
    | (b) "r \<noteq> None" "w1 = emit (fetch_call c hc) w"
    | (c) body where "trace w1 = trace w @ [fetch_call c hc, persist_call hc body]"
    by blast
  then show ?thesis
  proof cases
    case a
    then have "0 \<le> (2::nat) \<and> trace w1 = trace w @ take 0 (transfer_calls c hc []) \<and> (r = None \<longrightarrow> (0::nat) = 2)"
      by simp
    then show ?thesis by blast
  next
    case b
    then have "1 \<le> (2::nat) \<and> trace w1 = trace w @ take 1 (transfer_calls c hc []) \<and> (r = None \<longrightarrow> (1::nat) = 2)"
      by (simp add: emit_def transfer_calls_def)
    then show ?thesis by blast
  next
    case c
    then have "2 \<le> (2::nat) \<and> trace w1 = trace w @ take 2 (transfer_calls c hc body) \<and> (r = None \<longrightarrow> (2::nat) = 2)"
      by (simp add: transfer_calls_def)
    then show ?thesis by blast
  qed
qed

lemma migrate_trace:
  assumes "migrateChartFromSourceToDestination E c hc w = (r, w')"
  shows "\<exists>body n. n \<le> 4 \<and> trace w' = trace w @ take n (transfer_calls c hc body) \<and>
           (fst (pullChartFromSource E c hc w) \<noteq> None \<longrightarrow> n \<le> 2) \<and>
           (fst (pullChartFromSource E c hc w) = None \<longrightarrow>
              (if fst (pushChartToDestination E c hc (snd (pullChartFromSource E c hc w))) = None
               then n = 4 else n = 3))"
proof -
  obtain r1 w1 where p: "pullChartFromSource E c hc w = (r1, w1)"
    by (cases "pullChartFromSource E c hc w")
  from pull_trace [OF p] obtain body n where
    n: "n \<le> 2" "trace w1 = trace w @ take n (transfer_calls c hc body)" "r1 = None \<longrightarrow> n = 2"
    by blast
  show ?thesis
  proof (cases r1)
    case (Some e)
    with p assms have "w' = w1" by (simp add: migrate_pull_fails)
    with n Some p show ?thesis by (intro exI [of _ body] exI [of _ n]) simp
  next
    case None
    with n have n2: "n = 2" by simp
    obtain r2 w2 where q: "pushChartToDestination E c hc w1 = (r2, w2)"
      by (cases "pushChartToDestination E c hc w1")
    have w2: "w2 = emit (push_call c hc) w1"
      using push_world [of E c hc w1] q by simp
    show ?thesis
    proof (cases r2)
      case (Some e)
      with p q None assms have "w' = w2" by (simp add: migrate_push_fails)
      with w2 n n2 p q None Some show ?thesis
        by (intro exI [of _ body] exI [of _ 3]) (simp add: emit_def transfer_calls_def)
    next
      case N2: None
      with p q None assms have "removeChartFile E hc w2 = (r, w')" by (simp add: migrate_push_ok)
      then have "trace w' = trace w2 @ [cleanup_call hc]"
        using remove_trace [of E hc w2] by simp
      with w2 n n2 p q None N2 show ?thesis
        by (intro exI [of _ body] exI [of _ 4]) (simp add: emit_def transfer_calls_def)
    qed
  qed
qed

lemma pull_NewRequest_fails:
  "http_NewRequest E MethodGet (fetch_url c hc) = Some e \<Longrightarrow>
   pullChartFromSource E c hc w = (Some e, w)"
  by (simp add: pullChartFromSource_def Let_def fetch_url_def)

lemma pull_Do_fails:
  "http_NewRequest E MethodGet (fetch_url c hc) = None \<Longrightarrow>
   client_Do E w (fetch_request c hc) timeout = Inl e \<Longrightarrow>
   pullChartFromSource E c hc w = (Some e, emit (fetch_call c hc) w)"
  by (simp add: pullChartFromSource_def Let_def fetch_url_def fetch_request_def fetch_call_def
      MethodGet_def)

lemma pull_status_fails:
  "http_NewRequest E MethodGet (fetch_url c hc) = None \<Longrightarrow>
   client_Do E w (fetch_request c hc) timeout = Inr res \<Longrightarrow>
   StatusCode res \<noteq> StatusOK \<Longrightarrow>
   pullChartFromSource E c hc w = (Some (StatusErr (StatusCode res)), emit (fetch_call c hc) w)"
  by (simp add: pullChartFromSource_def Let_def fetch_url_def fetch_request_def fetch_call_def
      MethodGet_def)

lemma pull_body_fails:
  "http_NewRequest E MethodGet (fetch_url c hc) = None \<Longrightarrow>
   client_Do E w (fetch_request c hc) timeout = Inr res \<Longrightarrow>
   StatusCode res = StatusOK \<Longrightarrow> Body res = Inl e \<Longrightarrow>
   pullChartFromSource E c hc w = (Some e, emit (fetch_call c hc) w)"
  by (simp add: pullChartFromSource_def Let_def fetch_url_def fetch_request_def fetch_call_def
      MethodGet_def)

lemma pull_body_ok:
  "http_NewRequest E MethodGet (fetch_url c hc) = None \<Longrightarrow>
   client_Do E w (fetch_request c hc) timeout = Inr res \<Longrightarrow>
   StatusCode res = StatusOK \<Longrightarrow> Body res = Inr body \<Longrightarrow>
   trace (snd (pullChartFromSource E c hc w)) = trace w @ [fetch_call c hc, persist_call hc body]"
  by (simp add: pullChartFromSource_def Let_def fetch_url_def fetch_request_def fetch_call_def
      persist_call_def MethodGet_def emit_def split: option.splits)

lemma pull_fetch_fails:
  assumes "pullChartFromSource E c hc w = (r, w1)" and "fetch_fails E c hc w"
  shows "r \<noteq> None \<and> (w1 = w \<or> w1 = emit (fetch_call c hc) w)"
proof (cases "http_NewRequest E MethodGet (fetch_url c hc)")
  case (Some e)
  from pull_NewRequest_fails [OF Some, of w] assms(1) show ?thesis by simp
next
  case None
  show ?thesis
  proof (cases "client_Do E w (fetch_request c hc) timeout")
    case (Inl e)
    from pull_Do_fails [OF None Inl] assms(1) show ?thesis by simp
  next
    case (Inr res)
    show ?thesis
    proof (cases "StatusCode res = StatusOK")
      case False
      from pull_status_fails [OF None Inr False] assms(1) show ?thesis by simp
    next
      case True
      with assms(2) None Inr obtain e where "Body res = Inl e"
        by (auto simp: fetch_fails_def split: sum.splits)
      from pull_body_fails [OF None Inr True this] assms(1) show ?thesis by simp
    qed
  qed
qed

lemma pull_fetch_ok:
  assumes "pullChartFromSource E c hc w = (r, w1)" and "\<not> fetch_fails E c hc w"
  shows "\<exists>body. trace w1 = trace w @ [fetch_call c hc, persist_call hc body]"
proof -
  from assms(2) obtain res body where
    "http_NewRequest E MethodGet (fetch_url c hc) = None"
    "client_Do E w (fetch_request c hc) timeout = Inr res"
    "StatusCode res = StatusOK" "Body res = Inr body"
    by (auto simp: fetch_fails_def split: option.splits sum.splits)
  from pull_body_ok [OF this] assms(1) show ?thesis by auto
qed

subsection \<open>The steps of one transfer\<close>

text \<open>
  C5. When the fetch step of a transfer fails (the request cannot be built, the transport
  fails, the status is not 200, the body cannot be read or the file cannot be written),
  the transfer returns that error, wrapped, in the world the fetch left: the push is never
  run (no command at all is run, and nothing is removed). The calls of a transfer are
  always an initial part of the sequence fetch, persist, push, cleanup, and after a failed
  fetch of its first two.
\<close>

theorem fetch_failure_never_reaches_push:
  assumes "pullChartFromSource E c hc w = (Some e, w1)"
  shows "migrateChartFromSourceToDestination E c hc w =
           (Some (Wrap e ''Failed to pull chart from source''), w1)
       \<and> filter is_cmd (new_events w w1) = []
       \<and> filter is_remove (new_events w w1) = []
       \<and> (\<exists>body n. n \<le> 2 \<and> new_events w w1 = take n (transfer_calls c hc body))
       \<and> (\<exists>body n. n \<le> 4 \<and>
             new_events w (snd (migrateChartFromSourceToDestination E c hc w)) =
               take n (transfer_calls c hc body))"
proof -
  from pull_trace [OF assms] obtain body n where
    n: "n \<le> 2" "trace w1 = trace w @ take n (transfer_calls c hc body)"
    by blast
  then have ev: "new_events w w1 = take n (transfer_calls c hc body)"
    by (simp add: new_events_append)
  from n(1) have "n = 0 \<or> n = 1 \<or> n = 2" by arith
  then have no: "filter is_cmd (take n (transfer_calls c hc body)) = [] \<and>
                 filter is_remove (take n (transfer_calls c hc body)) = []"
    by (auto simp: call_defs)
  have m: "migrateChartFromSourceToDestination E c hc w =
           (Some (Wrap e ''Failed to pull chart from source''), w1)"
    by (rule migrate_pull_fails [OF assms])
  from n ev have "n \<le> 4 \<and> new_events w (snd (migrateChartFromSourceToDestination E c hc w)) =
      take n (transfer_calls c hc body)"
    by (simp add: m)
  then have "\<exists>body n. n \<le> 4 \<and>
             new_events w (snd (migrateChartFromSourceToDestination E c hc w)) =
               take n (transfer_calls c hc body)"
    by blast
  with m ev no n(1) show ?thesis by auto
qed

theorem fetch_failure_never_reaches_push_witness:
  "pullChartFromSource env_nginx_404 cfg0 chart_nginx w0 =
     (Some (StatusErr 404), emit (fetch_call cfg0 chart_nginx) w0)
   \<and> migrateChartFromSourceToDestination env_nginx_404 cfg0 chart_nginx w0 =
     (Some (Wrap (StatusErr 404) ''Failed to pull chart from source''),
      emit (fetch_call cfg0 chart_nginx) w0)
   \<and> filter is_cmd (new_events w0 (emit (fetch_call cfg0 chart_nginx) w0)) = []"
proof -
  have h: "pullChartFromSource env_nginx_404 cfg0 chart_nginx w0 =
     (Some (StatusErr 404), emit (fetch_call cfg0 chart_nginx) w0)"
    by (simp add: model_defs call_defs example_defs)
  from fetch_failure_never_reaches_push [OF h] h show ?thesis by simp
qed

lemma take_two: "n \<le> 2 \<Longrightarrow> take n (a # b # xs) = take n [a, b]"
proof -
  assume "n \<le> 2"
  then have "n = 0 \<or> n = 1 \<or> n = 2" by arith
  then show ?thesis by auto
qed

lemma fs_emit: "fs (emit ev w) = fs w"
  by (simp add: emit_def)

lemma trace_emit: "trace (emit ev w) = trace w @ [ev]"
  by (simp add: emit_def)

lemma pull_ok_fs:
  assumes "pullChartFromSource E c hc w = (None, w1)"
  shows "\<exists>body. trace w1 = trace w @ [fetch_call c hc, persist_call hc body] \<and>
           fs w1 = (fs w)(ChartFileName hc \<mapsto> body)"
  using pull_cases [OF assms] by auto

subsection \<open>The name of the staged file\<close>

text \<open>
  C7. The file name of a chart is its name, a hyphen, its version and \<^verbatim>\<open>.tgz\<close>: a
  function of the name and the version alone, so charts that agree on both have the same
  file name. The fetch requests exactly that name under
  \<^verbatim>\<open>{source}/chartrepo/{project}/charts/\<close> and writes the body to a file of that name, the
  push hands that name to \<^verbatim>\<open>helm push\<close>, and the cleanup removes the file of that name.
\<close>

theorem chart_file_name_round_trip:
  "ChartFileName hc = Name hc @ ''-'' @ Version hc @ ''.tgz''
   \<and> (Name hc' = Name hc \<and> Version hc' = Version hc \<longrightarrow> ChartFileName hc' = ChartFileName hc)
   \<and> (\<exists>body n. n \<le> 2 \<and>
         (fst (pullChartFromSource E c hc w) = None \<longrightarrow> n = 2) \<and>
         new_events w (snd (pullChartFromSource E c hc w)) =
           take n
             [ClientDo
                \<lparr>Method = ''GET'',
                 URL = sourceHarborURL c @ ''/chartrepo/'' @ Project hc @ ''/charts/'' @ ChartFileName hc,
                 BasicAuth = Some (sourceHarborUsername c, sourceHarborPassword c)\<rparr>
                timeout,
              OsWriteFile (ChartFileName hc) body fileMode])
   \<and> new_events w (snd (pushChartToDestination E c hc w)) =
         [CmdRun ''helm''
            [''push'', ChartFileName hc,
             ''oci://'' @ destinationHarborURL c @ ''/'' @ Project hc @ destPath c]]
   \<and> new_events w (snd (removeChartFile E hc w)) = [OsRemove (ChartFileName hc)]"
proof -
  obtain r w1 where p: "pullChartFromSource E c hc w = (r, w1)"
    by (cases "pullChartFromSource E c hc w")
  from pull_trace [OF p] obtain body n where
    n: "n \<le> 2" "trace w1 = trace w @ take n (transfer_calls c hc body)" "r = None \<longrightarrow> n = 2"
    by blast
  from n(1) have "take n (transfer_calls c hc body) = take n [fetch_call c hc, persist_call hc body]"
    unfolding transfer_calls_def by (rule take_two)
  then have "take n (transfer_calls c hc body) =
      take n [ClientDo
                \<lparr>Method = ''GET'',
                 URL = sourceHarborURL c @ ''/chartrepo/'' @ Project hc @ ''/charts/'' @ ChartFileName hc,
                 BasicAuth = Some (sourceHarborUsername c, sourceHarborPassword c)\<rparr>
                timeout,
              OsWriteFile (ChartFileName hc) body fileMode]"
    by (simp add: fetch_call_def fetch_request_def fetch_url_def persist_call_def)
  with n p have fetch: "\<exists>body n. n \<le> 2 \<and>
         (fst (pullChartFromSource E c hc w) = None \<longrightarrow> n = 2) \<and>
         new_events w (snd (pullChartFromSource E c hc w)) =
           take n
             [ClientDo
                \<lparr>Method = ''GET'',
                 URL = sourceHarborURL c @ ''/chartrepo/'' @ Project hc @ ''/charts/'' @ ChartFileName hc,
                 BasicAuth = Some (sourceHarborUsername c, sourceHarborPassword c)\<rparr>
                timeout,
              OsWriteFile (ChartFileName hc) body fileMode]"
    by (intro exI [of _ body] exI [of _ n]) (simp add: new_events_append)
  have push: "new_events w (snd (pushChartToDestination E c hc w)) =
         [CmdRun ''helm''
            [''push'', ChartFileName hc,
             ''oci://'' @ destinationHarborURL c @ ''/'' @ Project hc @ destPath c]]"
    by (simp add: push_world new_events_emit push_call_def)
  have rm: "new_events w (snd (removeChartFile E hc w)) = [OsRemove (ChartFileName hc)]"
    using remove_trace [of E hc w] by (simp add: new_events_append cleanup_call_def)
  have name: "ChartFileName hc = Name hc @ ''-'' @ Version hc @ ''.tgz''"
    by (simp add: ChartFileName_def)
  have same: "Name hc' = Name hc \<and> Version hc' = Version hc \<longrightarrow> ChartFileName hc' = ChartFileName hc"
    by (simp add: ChartFileName_def)
  from name same fetch push rm show ?thesis by blast
qed

theorem chart_file_name_round_trip_witness:
  "ChartFileName chart_redis = ''redis-1.0.0.tgz''
   \<and> ChartFileName chart_redis_cache = ChartFileName chart_redis
   \<and> new_events w0 (snd (pushChartToDestination env_ok cfg0 chart_redis w0)) =
         [CmdRun ''helm'' [''push'', ''redis-1.0.0.tgz'', ''oci://new.example/db/charts'']]
   \<and> new_events w0 (snd (removeChartFile env_ok chart_redis w0)) = [OsRemove ''redis-1.0.0.tgz'']"
  using chart_file_name_round_trip [of chart_redis chart_redis_cache env_ok cfg0 w0]
  by (simp add: example_defs)

text \<open>
  C9. The file name does not depend on the project: two charts with the same name and the
  same version have the same file name whatever their projects, and changing the project of
  a chart leaves its file name as it is. Their staged files collide: when both are fetched
  with success, one after the other, the second fetch writes to the path the first wrote to,
  and the file then holds the second chart.
\<close>

theorem chart_file_name_ignores_project:
  assumes "Name a = Name b" and "Version a = Version b"
  shows "ChartFileName a = ChartFileName b
       \<and> ChartFileName (a\<lparr>Project := p\<rparr>) = ChartFileName a
       \<and> (pullChartFromSource E c a w = (None, w1) \<and> pullChartFromSource E c b w1 = (None, w2) \<longrightarrow>
           (\<exists>body_a body_b.
              last (trace w1) = OsWriteFile (ChartFileName a) body_a fileMode \<and>
              fs w1 (ChartFileName a) = Some body_a \<and>
              last (trace w2) = OsWriteFile (ChartFileName a) body_b fileMode \<and>
              fs w2 (ChartFileName a) = Some body_b))"
proof -
  have eq: "ChartFileName a = ChartFileName b"
    using assms by (simp add: ChartFileName_def)
  have upd: "ChartFileName (a\<lparr>Project := p\<rparr>) = ChartFileName a"
    by (simp add: ChartFileName_def)
  have "\<exists>body_a body_b.
              last (trace w1) = OsWriteFile (ChartFileName a) body_a fileMode \<and>
              fs w1 (ChartFileName a) = Some body_a \<and>
              last (trace w2) = OsWriteFile (ChartFileName a) body_b fileMode \<and>
              fs w2 (ChartFileName a) = Some body_b"
    if pa: "pullChartFromSource E c a w = (None, w1)"
    and pb: "pullChartFromSource E c b w1 = (None, w2)"
  proof -
    from pull_ok_fs [OF pa] obtain body_a where
      a: "trace w1 = trace w @ [fetch_call c a, persist_call a body_a]"
         "fs w1 = (fs w)(ChartFileName a \<mapsto> body_a)"
      by blast
    from pull_ok_fs [OF pb] obtain body_b where
      b: "trace w2 = trace w1 @ [fetch_call c b, persist_call b body_b]"
         "fs w2 = (fs w1)(ChartFileName b \<mapsto> body_b)"
      by blast
    from a b eq have "last (trace w1) = OsWriteFile (ChartFileName a) body_a fileMode \<and>
              fs w1 (ChartFileName a) = Some body_a \<and>
              last (trace w2) = OsWriteFile (ChartFileName a) body_b fileMode \<and>
              fs w2 (ChartFileName a) = Some body_b"
      by (simp add: persist_call_def)
    then show ?thesis by blast
  qed
  with eq upd show ?thesis by blast
qed

theorem chart_file_name_ignores_project_witness:
  "Name chart_redis = Name chart_redis_cache \<and> Version chart_redis = Version chart_redis_cache
   \<and> Project chart_redis \<noteq> Project chart_redis_cache
   \<and> ChartFileName chart_redis = ChartFileName chart_redis_cache
   \<and> fs (snd (pullChartFromSource env_two_projects cfg0 chart_redis w0)) ''redis-1.0.0.tgz'' = Some [1]
   \<and> fs (snd (pullChartFromSource env_two_projects cfg0 chart_redis_cache
               (snd (pullChartFromSource env_two_projects cfg0 chart_redis w0)))) ''redis-1.0.0.tgz'' = Some [2]"
proof -
  have h: "Name chart_redis = Name chart_redis_cache" "Version chart_redis = Version chart_redis_cache"
    by (simp_all add: example_defs)
  have e: "fs (snd (pullChartFromSource env_two_projects cfg0 chart_redis w0)) ''redis-1.0.0.tgz'' = Some [1]
   \<and> fs (snd (pullChartFromSource env_two_projects cfg0 chart_redis_cache
               (snd (pullChartFromSource env_two_projects cfg0 chart_redis w0)))) ''redis-1.0.0.tgz'' = Some [2]"
    by (simp add: model_defs example_defs)
  have d: "Project chart_redis \<noteq> Project chart_redis_cache"
    by (simp add: example_defs)
  from chart_file_name_ignores_project [OF h] h d e show ?thesis by blast
qed

text \<open>
  C10. When the fetch fails before the write (the request cannot be built, the transport
  fails, the status is not 200, or the body cannot be read), the fetch returns an error,
  no file is written and the staging directory is as it was. Otherwise the fetch makes
  exactly two calls, the request and then the write of the body to the chart's file: the
  write is the last action of the fetch.
\<close>

theorem fetch_error_writes_no_file:
  assumes "pullChartFromSource E c hc w = (r, w1)"
  shows "(fetch_fails E c hc w \<longrightarrow>
            r \<noteq> None \<and> fs w1 = fs w \<and> filter is_write (new_events w w1) = [])
       \<and> (\<not> fetch_fails E c hc w \<longrightarrow>
            (\<exists>body. new_events w w1 = [fetch_call c hc, OsWriteFile (ChartFileName hc) body fileMode]))"
proof -
  have "r \<noteq> None \<and> fs w1 = fs w \<and> filter is_write (new_events w w1) = []"
    if "fetch_fails E c hc w"
  proof -
    from pull_fetch_fails [OF assms that] have r: "r \<noteq> None"
      and "w1 = w \<or> w1 = emit (fetch_call c hc) w" by simp_all
    then show ?thesis
      by (auto simp: new_events_same new_events_emit fs_emit fetch_call_def)
  qed
  moreover have "\<exists>body. new_events w w1 = [fetch_call c hc, OsWriteFile (ChartFileName hc) body fileMode]"
    if "\<not> fetch_fails E c hc w"
    using pull_fetch_ok [OF assms that] by (auto simp: new_events_append persist_call_def)
  ultimately show ?thesis by blast
qed

theorem fetch_error_writes_no_file_witness:
  "fetch_fails env_nginx_404 cfg0 chart_nginx w0
   \<and> fst (pullChartFromSource env_nginx_404 cfg0 chart_nginx w0) \<noteq> None
   \<and> fs (snd (pullChartFromSource env_nginx_404 cfg0 chart_nginx w0)) = fs w0
   \<and> filter is_write (new_events w0 (snd (pullChartFromSource env_nginx_404 cfg0 chart_nginx w0))) = []
   \<and> \<not> fetch_fails env_nginx_404 cfg0 chart_redis w0
   \<and> new_events w0 (snd (pullChartFromSource env_nginx_404 cfg0 chart_redis w0)) =
       [fetch_call cfg0 chart_redis, OsWriteFile ''redis-1.0.0.tgz'' [1, 2, 3] fileMode]"
proof -
  have f: "fetch_fails env_nginx_404 cfg0 chart_nginx w0"
    by (simp add: fetch_fails_def model_defs call_defs example_defs)
  have g: "\<not> fetch_fails env_nginx_404 cfg0 chart_redis w0"
    by (simp add: fetch_fails_def model_defs call_defs example_defs)
  have e: "new_events w0 (snd (pullChartFromSource env_nginx_404 cfg0 chart_redis w0)) =
       [fetch_call cfg0 chart_redis, OsWriteFile ''redis-1.0.0.tgz'' [1, 2, 3] fileMode]"
    by (simp add: new_events_def model_defs call_defs example_defs)
  from fetch_error_writes_no_file
         [of env_nginx_404 cfg0 chart_nginx w0
             "fst (pullChartFromSource env_nginx_404 cfg0 chart_nginx w0)"
             "snd (pullChartFromSource env_nginx_404 cfg0 chart_nginx w0)"] f g e
  show ?thesis by simp
qed

lemma remove_ok_fs:
  "fst (removeChartFile E hc w) = None \<Longrightarrow> fs (snd (removeChartFile E hc w)) (ChartFileName hc) = None"
  unfolding removeChartFile_def Let_def
  by (simp split: option.splits)

text \<open>
  The remaining error of the fetch is the one of \<^verbatim>\<open>os.WriteFile\<close> itself. There the write
  has been attempted, and what is left at the path is up to the operating system.
\<close>

lemma failed_write_example:
  "fst (pullChartFromSource env_write_fails cfg0 chart_redis w0) = Some (ExtErr ''no space left on device'')
   \<and> \<not> fetch_fails env_write_fails cfg0 chart_redis w0
   \<and> fs (snd (pullChartFromSource env_write_fails cfg0 chart_redis w0)) ''redis-1.0.0.tgz'' = Some []"
  by (simp add: fetch_fails_def model_defs call_defs example_defs)

subsection \<open>Cleanup\<close>

text \<open>
  C1, as the specification states it, fails twice. When \<^verbatim>\<open>helm push\<close> fails, the transfer
  returns at once: the calls are the fetch, the write and the push, nothing is removed and
  the staged file stays. When everything but the removal succeeds, the transfer returns the
  error of \<^verbatim>\<open>os.Remove\<close>, and the loop counts the chart as failed.
\<close>

theorem cleanup_only_after_successful_push_counterexample:
  "fst (pullChartFromSource env_push_fails cfg0 chart_redis w0) = None
   \<and> fst (pushChartToDestination env_push_fails cfg0 chart_redis
            (snd (pullChartFromSource env_push_fails cfg0 chart_redis w0))) \<noteq> None
   \<and> new_events w0 (snd (migrateChartFromSourceToDestination env_push_fails cfg0 chart_redis w0)) =
        [fetch_call cfg0 chart_redis, persist_call chart_redis [1, 2, 3], push_call cfg0 chart_redis]
   \<and> filter is_remove
        (new_events w0 (snd (migrateChartFromSourceToDestination env_push_fails cfg0 chart_redis w0))) = []
   \<and> fs (snd (migrateChartFromSourceToDestination env_push_fails cfg0 chart_redis w0))
        ''redis-1.0.0.tgz'' = Some [1, 2, 3]
   \<and> fst (pullChartFromSource env_remove_fails cfg0 chart_redis w0) = None
   \<and> fst (pushChartToDestination env_remove_fails cfg0 chart_redis
            (snd (pullChartFromSource env_remove_fails cfg0 chart_redis w0))) = None
   \<and> fst (migrateChartFromSourceToDestination env_remove_fails cfg0 chart_redis w0) =
        Some (ExtErr ''permission denied'')
   \<and> fst (migrateLoop env_remove_fails cfg0 [chart_redis] (0, w0)) = 1"
  by (simp add: new_events_def model_defs call_defs example_defs)

text \<open>
  C1, amended. The cleanup is attempted at most once per transfer: exactly once when the
  fetch and the push have both succeeded, as the call right after the push, and not at all
  otherwise. When it is attempted its result is the result of the transfer, so the transfer
  succeeds exactly when fetch, push and cleanup all succeed, and then the staged file is
  gone.
\<close>

theorem cleanup_only_after_successful_push:
  assumes "pullChartFromSource E c hc w = (r1, w1)"
      and "pushChartToDestination E c hc w1 = (r2, w2)"
      and "migrateChartFromSourceToDestination E c hc w = (r, w')"
  shows "length (filter is_remove (new_events w w')) = (if r1 = None \<and> r2 = None then 1 else 0)
       \<and> (r1 = None \<and> r2 = None \<longrightarrow>
            last (trace w2) = push_call c hc \<and>
            new_events w2 w' = [OsRemove (ChartFileName hc)] \<and>
            r = os_Remove E w2 (ChartFileName hc))
       \<and> (r = None \<longleftrightarrow> r1 = None \<and> r2 = None \<and> os_Remove E w2 (ChartFileName hc) = None)
       \<and> (r = None \<longrightarrow> fs w' (ChartFileName hc) = None)"
proof -
  from pull_trace [OF assms(1)] obtain body n where
    n: "n \<le> 2" "trace w1 = trace w @ take n (transfer_calls c hc body)" "r1 = None \<longrightarrow> n = 2"
    by blast
  from n(1) have n012: "n = 0 \<or> n = 1 \<or> n = 2" by arith
  have w2: "w2 = emit (push_call c hc) w1"
    using push_world [of E c hc w1] assms(2) by simp
  show ?thesis
  proof (cases r1)
    case (Some e)
    with assms have m: "r = Some (Wrap e ''Failed to pull chart from source'')" "w' = w1"
      by (simp_all add: migrate_pull_fails)
    from n012 have "filter is_remove (take n (transfer_calls c hc body)) = []"
      by (auto simp: call_defs)
    with n(2) m Some show ?thesis by (simp add: new_events_append)
  next
    case None
    with n have tr1: "trace w1 = trace w @ [fetch_call c hc, persist_call hc body]"
      by (simp add: transfer_calls_def)
    show ?thesis
    proof (cases r2)
      case (Some e)
      with None assms have m: "r = Some (Wrap e ''Failed to push chart to destination'')" "w' = w2"
        by (simp_all add: migrate_push_fails)
      from tr1 w2 have "trace w2 = trace w @ [fetch_call c hc, persist_call hc body, push_call c hc]"
        by (simp add: trace_emit)
      then have "new_events w w2 = [fetch_call c hc, persist_call hc body, push_call c hc]"
        by (rule new_events_append)
      with m None Some show ?thesis by (simp add: call_defs)
    next
      case N2: None
      with None assms have m: "removeChartFile E hc w2 = (r, w')"
        by (simp add: migrate_push_ok)
      then have r: "r = os_Remove E w2 (ChartFileName hc)"
        using remove_result [of E hc w2] by simp
      from m have tr': "trace w' = trace w2 @ [cleanup_call hc]"
        using remove_trace [of E hc w2] by simp
      with tr1 w2 have "trace w' =
          trace w @ [fetch_call c hc, persist_call hc body, push_call c hc, cleanup_call hc]"
        by (simp add: trace_emit)
      then have ev: "new_events w w' =
          [fetch_call c hc, persist_call hc body, push_call c hc, cleanup_call hc]"
        by (rule new_events_append)
      from tr' have ev2: "new_events w2 w' = [OsRemove (ChartFileName hc)]"
        by (simp add: new_events_append cleanup_call_def)
      from w2 have l: "last (trace w2) = push_call c hc"
        by (simp add: trace_emit)
      have f: "r = None \<longrightarrow> fs w' (ChartFileName hc) = None"
        using remove_ok_fs [of E hc w2] m by simp
      from ev ev2 l r f None N2 show ?thesis by (simp add: call_defs)
    qed
  qed
qed

theorem cleanup_only_after_successful_push_witness:
  "pullChartFromSource env_ok cfg0 chart_redis w0 =
     (None, snd (pullChartFromSource env_ok cfg0 chart_redis w0))
   \<and> length (filter is_remove
        (new_events w0 (snd (migrateChartFromSourceToDestination env_ok cfg0 chart_redis w0)))) = 1
   \<and> fst (migrateChartFromSourceToDestination env_ok cfg0 chart_redis w0) = None
   \<and> fs (snd (migrateChartFromSourceToDestination env_ok cfg0 chart_redis w0)) ''redis-1.0.0.tgz'' = None"
proof -
  have p: "pullChartFromSource env_ok cfg0 chart_redis w0 =
     (None, snd (pullChartFromSource env_ok cfg0 chart_redis w0))"
    by (simp add: model_defs example_defs)
  have q: "pushChartToDestination env_ok cfg0 chart_redis
             (snd (pullChartFromSource env_ok cfg0 chart_redis w0)) =
     (None, snd (pushChartToDestination env_ok cfg0 chart_redis
             (snd (pullChartFromSource env_ok cfg0 chart_redis w0))))"
    by (simp add: model_defs example_defs)
  have m: "migrateChartFromSourceToDestination env_ok cfg0 chart_redis w0 =
     (fst (migrateChartFromSourceToDestination env_ok cfg0 chart_redis w0),
      snd (migrateChartFromSourceToDestination env_ok cfg0 chart_redis w0))"
    by simp
  have r: "os_Remove env_ok (snd (pushChartToDestination env_ok cfg0 chart_redis
             (snd (pullChartFromSource env_ok cfg0 chart_redis w0)))) (ChartFileName chart_redis) = None"
    by (simp add: example_defs)
  have n: "ChartFileName chart_redis = ''redis-1.0.0.tgz''"
    by (simp add: ChartFileName_def example_defs)
  from cleanup_only_after_successful_push [OF p q m] p r n show ?thesis by simp
qed

subsection \<open>The loop over the charts\<close>

lemma list_all_take: "list_all P xs \<Longrightarrow> list_all P (take n xs)"
  by (auto simp: list_all_iff dest: in_set_takeD)

lemma filter_none: "list_all (\<lambda>x. \<not> Q x) xs \<Longrightarrow> filter Q xs = []"
  by (simp add: list_all_iff filter_empty_conv)

lemma transfer_calls_quiet:
  "list_all (\<lambda>ev. \<not> is_diagnostic ev \<and> \<not> is_bar_add ev) (transfer_calls c hc body)"
  by (simp add: call_defs)

lemma migrate_events:
  assumes "migrateChartFromSourceToDestination E c hc w = (r, w1)"
      and "\<And>body. list_all P (transfer_calls c hc body)"
  shows "\<exists>evs. trace w1 = trace w @ evs \<and> list_all P evs \<and>
           filter is_diagnostic evs = [] \<and> filter is_bar_add evs = []"
proof -
  from migrate_trace [OF assms(1)] obtain body n where
    t: "trace w1 = trace w @ take n (transfer_calls c hc body)"
    by blast
  have "list_all P (take n (transfer_calls c hc body))"
    by (rule list_all_take [OF assms(2)])
  moreover have q: "list_all (\<lambda>ev. \<not> is_diagnostic ev \<and> \<not> is_bar_add ev)
      (take n (transfer_calls c hc body))"
    by (rule list_all_take [OF transfer_calls_quiet])
  then have "filter is_diagnostic (take n (transfer_calls c hc body)) = []"
    and "filter is_bar_add (take n (transfer_calls c hc body)) = []"
    by (simp_all add: list_all_iff filter_empty_conv)
  ultimately show ?thesis using t by blast
qed

lemma loop_Cons_fails:
  "migrateChartFromSourceToDestination E c hc (emit (BarAdd 1) w) = (Some e, w1) \<Longrightarrow>
   migrateLoop E c (hc # rest) (k, w) =
     migrateLoop E c rest (k + 1, emit (LogPrintln (Wrap e ''Failed to migrate Helm chart'')) w1)"
  by simp

lemma loop_Cons_ok:
  "migrateChartFromSourceToDestination E c hc (emit (BarAdd 1) w) = (None, w1) \<Longrightarrow>
   migrateLoop E c (hc # rest) (k, w) = migrateLoop E c rest (k, w1)"
  by simp

lemma loop_trace:
  assumes P1: "P (BarAdd 1)" and P2: "\<And>e. P (LogPrintln e)"
      and P3: "\<And>hc body. list_all P (transfer_calls c hc body)"
  shows "\<exists>evs. trace (snd (migrateLoop E c cs (k, w))) = trace w @ evs \<and> list_all P evs \<and>
           fst (migrateLoop E c cs (k, w)) = k + int (length (filter is_diagnostic evs)) \<and>
           length (filter is_diagnostic evs) \<le> length cs \<and>
           length (filter is_bar_add evs) = length cs"
proof (induction cs arbitrary: k w)
  case Nil
  have "trace (snd (migrateLoop E c [] (k, w))) = trace w @ [] \<and> list_all P [] \<and>
           fst (migrateLoop E c [] (k, w)) = k + int (length (filter is_diagnostic [])) \<and>
           length (filter is_diagnostic []) \<le> length ([] :: HelmChart list) \<and>
           length (filter is_bar_add []) = length ([] :: HelmChart list)"
    by simp
  then show ?case by blast
next
  case (Cons hc rest)
  obtain r w1 where m: "migrateChartFromSourceToDestination E c hc (emit (BarAdd 1) w) = (r, w1)"
    by (cases "migrateChartFromSourceToDestination E c hc (emit (BarAdd 1) w)")
  from migrate_events [OF m P3] obtain evs1 where
    e1: "trace w1 = trace (emit (BarAdd 1) w) @ evs1" "list_all P evs1"
        "filter is_diagnostic evs1 = []" "filter is_bar_add evs1 = []"
    by blast
  show ?case
  proof (cases r)
    case None
    from Cons.IH [of k w1] obtain evs2 where
      e2: "trace (snd (migrateLoop E c rest (k, w1))) = trace w1 @ evs2" "list_all P evs2"
          "fst (migrateLoop E c rest (k, w1)) = k + int (length (filter is_diagnostic evs2))"
          "length (filter is_diagnostic evs2) \<le> length rest"
          "length (filter is_bar_add evs2) = length rest"
      by blast
    have step: "migrateLoop E c (hc # rest) (k, w) = migrateLoop E c rest (k, w1)"
      using m None by (simp add: loop_Cons_ok)
    let ?evs = "BarAdd 1 # evs1 @ evs2"
    from e1 e2 P1 have
      "trace (snd (migrateLoop E c (hc # rest) (k, w))) = trace w @ ?evs \<and> list_all P ?evs \<and>
           fst (migrateLoop E c (hc # rest) (k, w)) = k + int (length (filter is_diagnostic ?evs)) \<and>
           length (filter is_diagnostic ?evs) \<le> length (hc # rest) \<and>
           length (filter is_bar_add ?evs) = length (hc # rest)"
      unfolding step by (simp add: trace_emit)
    then show ?thesis by blast
  next
    case (Some e)
    let ?d = "LogPrintln (Wrap e ''Failed to migrate Helm chart'')"
    from Cons.IH [of "k + 1" "emit ?d w1"] obtain evs2 where
      e2: "trace (snd (migrateLoop E c rest (k + 1, emit ?d w1))) = trace (emit ?d w1) @ evs2"
          "list_all P evs2"
          "fst (migrateLoop E c rest (k + 1, emit ?d w1)) = k + 1 + int (length (filter is_diagnostic evs2))"
          "length (filter is_diagnostic evs2) \<le> length rest"
          "length (filter is_bar_add evs2) = length rest"
      by blast
    have step: "migrateLoop E c (hc # rest) (k, w) = migrateLoop E c rest (k + 1, emit ?d w1)"
      using m Some by (simp add: loop_Cons_fails)
    let ?evs = "BarAdd 1 # evs1 @ ?d # evs2"
    from e1 e2 P1 P2 [of "Wrap e ''Failed to migrate Helm chart''"] have
      "trace (snd (migrateLoop E c (hc # rest) (k, w))) = trace w @ ?evs \<and> list_all P ?evs \<and>
           fst (migrateLoop E c (hc # rest) (k, w)) = k + int (length (filter is_diagnostic ?evs)) \<and>
           length (filter is_diagnostic ?evs) \<le> length (hc # rest) \<and>
           length (filter is_bar_add ?evs) = length (hc # rest)"
      unfolding step by (simp add: trace_emit)
    then show ?thesis by blast
  qed
qed

lemma loop_append:
  "migrateLoop E c (xs @ ys) s = migrateLoop E c ys (migrateLoop E c xs s)"
proof (induction xs arbitrary: s)
  case Nil
  show ?case by (cases s) simp
next
  case (Cons x xs)
  obtain k w where s: "s = (k, w)" by (cases s)
  obtain r w1 where m: "migrateChartFromSourceToDestination E c x (emit (BarAdd 1) w) = (r, w1)"
    by (cases "migrateChartFromSourceToDestination E c x (emit (BarAdd 1) w)")
  show ?case
  proof (cases r)
    case None
    with m s Cons.IH show ?thesis by (simp add: loop_Cons_ok)
  next
    case (Some e)
    with m s Cons.IH show ?thesis by (simp add: loop_Cons_fails)
  qed
qed

text \<open>
  C2. Whatever happened to the charts before it (\<open>xs\<close>), every chart \<open>hc\<close> of the list
  is handed to the transfer, in the world those charts left, and whatever the transfer
  answers the loop goes on with the charts after it (\<open>ys\<close>): with the count unchanged
  when the transfer succeeded, and with the count increased by one and a diagnostic line
  logged when it failed. The progress bar advances once per chart of the list, and the
  count grows by the number of diagnostic lines.
\<close>

theorem every_chart_is_attempted_in_order:
  "migrateLoop E c (xs @ hc # ys) (k, w) =
     (case migrateLoop E c xs (k, w) of
        (k1, w1) \<Rightarrow>
          (case migrateChartFromSourceToDestination E c hc (emit (BarAdd 1) w1) of
             (Some e, w2) \<Rightarrow>
               migrateLoop E c ys
                 (k1 + 1, emit (LogPrintln (Wrap e ''Failed to migrate Helm chart'')) w2)
           | (None, w2) \<Rightarrow> migrateLoop E c ys (k1, w2)))
   \<and> length (filter is_bar_add (new_events w (snd (migrateLoop E c (xs @ hc # ys) (k, w))))) =
       length (xs @ hc # ys)
   \<and> fst (migrateLoop E c (xs @ hc # ys) (k, w)) =
       k + int (length (filter is_diagnostic (new_events w (snd (migrateLoop E c (xs @ hc # ys) (k, w))))))"
proof -
  obtain k1 w1 where l: "migrateLoop E c xs (k, w) = (k1, w1)"
    by (cases "migrateLoop E c xs (k, w)")
  have "migrateLoop E c (xs @ hc # ys) (k, w) = migrateLoop E c (hc # ys) (k1, w1)"
    by (simp add: loop_append l)
  then have a: "migrateLoop E c (xs @ hc # ys) (k, w) =
     (case migrateLoop E c xs (k, w) of
        (k1, w1) \<Rightarrow>
          (case migrateChartFromSourceToDestination E c hc (emit (BarAdd 1) w1) of
             (Some e, w2) \<Rightarrow>
               migrateLoop E c ys
                 (k1 + 1, emit (LogPrintln (Wrap e ''Failed to migrate Helm chart'')) w2)
           | (None, w2) \<Rightarrow> migrateLoop E c ys (k1, w2)))"
    by (simp add: l)
  from loop_trace [of "\<lambda>ev. True" c E "xs @ hc # ys" k w] obtain evs where
    e: "trace (snd (migrateLoop E c (xs @ hc # ys) (k, w))) = trace w @ evs"
       "fst (migrateLoop E c (xs @ hc # ys) (k, w)) = k + int (length (filter is_diagnostic evs))"
       "length (filter is_bar_add evs) = length (xs @ hc # ys)"
    by (auto simp: list_all_iff)
  from e(1) have "new_events w (snd (migrateLoop E c (xs @ hc # ys) (k, w))) = evs"
    by (rule new_events_append)
  with a e show ?thesis by simp
qed

theorem every_chart_is_attempted_in_order_witness:
  "fst (migrateLoop env_nginx_404 cfg0 [chart_nginx, chart_redis] (0, w0)) = 1
   \<and> new_events w0 (snd (migrateLoop env_nginx_404 cfg0 [chart_nginx, chart_redis] (0, w0))) =
       [BarAdd 1, fetch_call cfg0 chart_nginx,
        LogPrintln (Wrap (Wrap (StatusErr 404) ''Failed to pull chart from source'')
                      ''Failed to migrate Helm chart''),
        BarAdd 1, fetch_call cfg0 chart_redis, persist_call chart_redis [1, 2, 3],
        push_call cfg0 chart_redis, cleanup_call chart_redis]"
  using every_chart_is_attempted_in_order [of env_nginx_404 cfg0 "[]" chart_nginx "[chart_redis]" 0 w0]
  by (simp add: new_events_def model_defs call_defs example_defs)

subsection \<open>The run\<close>

lemma login_world: "snd (helmLogin E registry username password w) = emit (login_call registry username password) w"
  unfolding helmLogin_def Let_def login_call_def helmBinaryPath_def
  by (simp split: option.splits prod.splits)

lemma main_source_login_fails:
  "helmLogin E (sourceHarborURL c) (sourceHarborUsername c) (sourceHarborPassword c) w = (Some e, w1) \<Longrightarrow>
   main E c w = log_Fatal (Wrap e ''Failed to login to source Harbor'') w1"
  by (simp add: main_def)

lemma main_destination_login_fails:
  "helmLogin E (sourceHarborURL c) (sourceHarborUsername c) (sourceHarborPassword c) w = (None, w1) \<Longrightarrow>
   helmLogin E (destinationHarborURL c) (destinationHarborUsername c) (destinationHarborPassword c) w1 =
     (Some e, w2) \<Longrightarrow>
   main E c w = log_Fatal (Wrap e ''Failed to login to destination Harbor'') w2"
  by (simp add: main_def)

lemma main_discovery_fails:
  "helmLogin E (sourceHarborURL c) (sourceHarborUsername c) (sourceHarborPassword c) w = (None, w1) \<Longrightarrow>
   helmLogin E (destinationHarborURL c) (destinationHarborUsername c) (destinationHarborPassword c) w1 =
     (None, w2) \<Longrightarrow>
   getHarborChartmuseumCharts E w2 = Inl e \<Longrightarrow>
   main E c w = log_Fatal (Wrap e ''Failed to retrieve Helm charts from source'') (emit GetCharts w2)"
  by (simp add: main_def)

lemma main_transfers:
  "helmLogin E (sourceHarborURL c) (sourceHarborUsername c) (sourceHarborPassword c) w = (None, w1) \<Longrightarrow>
   helmLogin E (destinationHarborURL c) (destinationHarborUsername c) (destinationHarborPassword c) w1 =
     (None, w2) \<Longrightarrow>
   getHarborChartmuseumCharts E w2 = Inr charts \<Longrightarrow>
   migrateLoop E c charts
     (0, emit (BarDefault (int (length charts)))
           (emit (LogPrintf ''%d Helm charts to migrate'' (int (length charts))) (emit GetCharts w2))) =
     (errorCount, w5) \<Longrightarrow>
   main E c w =
     (0, emit (LogPrintf ''%d Helm charts successfully migrated'' (int (length charts) - errorCount)) w5)"
  by (simp add: main_def Let_def)

text \<open>
  C6. When the login to the source registry fails, or the login to the destination registry
  fails after it, the run ends with exit status 1. The staging directory is as it was, and
  the only calls made are logins and the fatal log line: no discovery, no fetch, no push,
  no file write, and the loop over the charts is never entered.
\<close>

theorem failed_login_aborts_the_run:
  assumes "fst (helmLogin E (sourceHarborURL c) (sourceHarborUsername c) (sourceHarborPassword c) w) \<noteq> None
         \<or> fst (helmLogin E (destinationHarborURL c) (destinationHarborUsername c)
                  (destinationHarborPassword c)
                  (snd (helmLogin E (sourceHarborURL c) (sourceHarborUsername c)
                          (sourceHarborPassword c) w))) \<noteq> None"
  shows "fst (main E c w) = 1
       \<and> fs (snd (main E c w)) = fs w
       \<and> filter is_discovery (new_events w (snd (main E c w))) = []
       \<and> filter is_fetch (new_events w (snd (main E c w))) = []
       \<and> filter is_push (new_events w (snd (main E c w))) = []
       \<and> filter is_write (new_events w (snd (main E c w))) = []
       \<and> filter is_bar_add (new_events w (snd (main E c w))) = []
       \<and> list_all (\<lambda>ev. is_login ev \<or> (\<exists>e. ev = LogFatal e)) (new_events w (snd (main E c w)))"
proof -
  let ?src = "login_call (sourceHarborURL c) (sourceHarborUsername c) (sourceHarborPassword c)"
  let ?dst = "login_call (destinationHarborURL c) (destinationHarborUsername c) (destinationHarborPassword c)"
  obtain r1 w1 where l1:
    "helmLogin E (sourceHarborURL c) (sourceHarborUsername c) (sourceHarborPassword c) w = (r1, w1)"
    by (cases "helmLogin E (sourceHarborURL c) (sourceHarborUsername c) (sourceHarborPassword c) w")
  have w1: "w1 = emit ?src w"
    using login_world [of E "sourceHarborURL c" "sourceHarborUsername c" "sourceHarborPassword c" w] l1
    by simp
  show ?thesis
  proof (cases r1)
    case (Some e)
    let ?f = "LogFatal (Wrap e ''Failed to login to source Harbor'')"
    from l1 Some have m: "main E c w = (1, emit ?f w1)"
      by (simp add: main_source_login_fails log_Fatal_def)
    have "trace (emit ?f w1) = trace w @ [?src, ?f]"
      by (simp add: w1 trace_emit)
    then have "new_events w (emit ?f w1) = [?src, ?f]"
      by (rule new_events_append)
    with m w1 show ?thesis by (simp add: fs_emit login_call_def)
  next
    case None
    obtain r2 w2 where l2:
      "helmLogin E (destinationHarborURL c) (destinationHarborUsername c) (destinationHarborPassword c) w1
         = (r2, w2)"
      by (cases "helmLogin E (destinationHarborURL c) (destinationHarborUsername c)
                   (destinationHarborPassword c) w1")
    have w2: "w2 = emit ?dst w1"
      using login_world [of E "destinationHarborURL c" "destinationHarborUsername c"
                            "destinationHarborPassword c" w1] l2
      by simp
    from assms l1 None l2 obtain e where r2: "r2 = Some e" by auto
    let ?f = "LogFatal (Wrap e ''Failed to login to destination Harbor'')"
    from l1 None l2 r2 have m: "main E c w = (1, emit ?f w2)"
      by (simp add: main_destination_login_fails log_Fatal_def)
    have "trace (emit ?f w2) = trace w @ [?src, ?dst, ?f]"
      by (simp add: w1 w2 trace_emit)
    then have "new_events w (emit ?f w2) = [?src, ?dst, ?f]"
      by (rule new_events_append)
    with m w1 w2 show ?thesis by (simp add: fs_emit login_call_def)
  qed
qed

theorem failed_login_aborts_the_run_witness:
  "fst (helmLogin env_dest_login_fails (sourceHarborURL cfg0) (sourceHarborUsername cfg0)
          (sourceHarborPassword cfg0) w0) = None
   \<and> fst (helmLogin env_dest_login_fails (destinationHarborURL cfg0) (destinationHarborUsername cfg0)
            (destinationHarborPassword cfg0)
            (snd (helmLogin env_dest_login_fails (sourceHarborURL cfg0) (sourceHarborUsername cfg0)
                    (sourceHarborPassword cfg0) w0))) \<noteq> None
   \<and> fst (main env_dest_login_fails cfg0 w0) = 1
   \<and> fs (snd (main env_dest_login_fails cfg0 w0)) = fs w0
   \<and> filter is_fetch (new_events w0 (snd (main env_dest_login_fails cfg0 w0))) = []
   \<and> filter is_push (new_events w0 (snd (main env_dest_login_fails cfg0 w0))) = []
   \<and> filter is_write (new_events w0 (snd (main env_dest_login_fails cfg0 w0))) = []"
proof -
  have a: "fst (helmLogin env_dest_login_fails (sourceHarborURL cfg0) (sourceHarborUsername cfg0)
          (sourceHarborPassword cfg0) w0) = None"
    by (simp add: helmLogin_def Let_def helmBinaryPath_def example_defs)
  have b: "fst (helmLogin env_dest_login_fails (destinationHarborURL cfg0) (destinationHarborUsername cfg0)
            (destinationHarborPassword cfg0)
            (snd (helmLogin env_dest_login_fails (sourceHarborURL cfg0) (sourceHarborUsername cfg0)
                    (sourceHarborPassword cfg0) w0))) \<noteq> None"
    by (simp add: helmLogin_def Let_def helmBinaryPath_def example_defs)
  from failed_login_aborts_the_run [of env_dest_login_fails cfg0 w0] a b show ?thesis by simp
qed

text \<open>
  C3. When both logins and the discovery succeed, the run logs the total (the length of the
  discovered list), then one diagnostic line per failed transfer, and last the number of
  charts migrated; the number of failures is the final \<^verbatim>\<open>errorCount\<close>. The number migrated
  and the number of failures add up to the total, and neither is negative. This holds for
  every discovered list, the empty one too.
\<close>

theorem reported_counts_add_up:
  assumes "helmLogin E (sourceHarborURL c) (sourceHarborUsername c) (sourceHarborPassword c) w = (None, w1)"
      and "helmLogin E (destinationHarborURL c) (destinationHarborUsername c)
             (destinationHarborPassword c) w1 = (None, w2)"
      and "getHarborChartmuseumCharts E w2 = Inr charts"
  shows "\<exists>totalCount successCount failureCount evs.
           new_events w2 (snd (main E c w)) =
             GetCharts # LogPrintf ''%d Helm charts to migrate'' totalCount # BarDefault totalCount #
             evs @ [LogPrintf ''%d Helm charts successfully migrated'' successCount]
         \<and> failureCount = int (length (filter is_diagnostic evs))
         \<and> failureCount =
             fst (migrateLoop E c charts
                   (0, emit (BarDefault totalCount)
                         (emit (LogPrintf ''%d Helm charts to migrate'' totalCount) (emit GetCharts w2))))
         \<and> totalCount = int (length charts)
         \<and> successCount + failureCount = totalCount
         \<and> 0 \<le> successCount \<and> 0 \<le> failureCount"
proof -
  let ?n = "int (length charts)"
  let ?w4 = "emit (BarDefault ?n) (emit (LogPrintf ''%d Helm charts to migrate'' ?n) (emit GetCharts w2))"
  obtain errorCount w5 where l: "migrateLoop E c charts (0, ?w4) = (errorCount, w5)"
    by (cases "migrateLoop E c charts (0, ?w4)")
  from loop_trace [of "\<lambda>ev. True" c E charts 0 ?w4] l obtain evs where
    e: "trace w5 = trace ?w4 @ evs"
       "errorCount = int (length (filter is_diagnostic evs))"
       "length (filter is_diagnostic evs) \<le> length charts"
    by (auto simp: list_all_iff)
  let ?s = "?n - errorCount"
  have m: "main E c w = (0, emit (LogPrintf ''%d Helm charts successfully migrated'' ?s) w5)"
    by (rule main_transfers [OF assms l])
  have "trace (snd (main E c w)) =
      trace w2 @ (GetCharts # LogPrintf ''%d Helm charts to migrate'' ?n # BarDefault ?n #
             evs @ [LogPrintf ''%d Helm charts successfully migrated'' ?s])"
    by (simp add: m e(1) trace_emit)
  then have "new_events w2 (snd (main E c w)) =
      GetCharts # LogPrintf ''%d Helm charts to migrate'' ?n # BarDefault ?n #
             evs @ [LogPrintf ''%d Helm charts successfully migrated'' ?s]"
    by (rule new_events_append)
  moreover have "errorCount = fst (migrateLoop E c charts (0, ?w4))"
    by (simp add: l)
  moreover have "?s + errorCount = ?n" by simp
  moreover have "0 \<le> ?s" "0 \<le> errorCount" using e(2,3) by simp_all
  ultimately show ?thesis using e(2) by blast
qed

theorem reported_counts_add_up_witness:
  "helmLogin env_nginx_404 (sourceHarborURL cfg0) (sourceHarborUsername cfg0) (sourceHarborPassword cfg0) w0 =
     (None, emit (login_call ''https://old.example'' ''alice'' ''s1'') w0)
   \<and> getHarborChartmuseumCharts env_nginx_404
        (emit (login_call ''new.example'' ''bob'' ''s2'')
           (emit (login_call ''https://old.example'' ''alice'' ''s1'') w0)) =
      Inr [chart_redis, chart_nginx]
   \<and> (\<exists>totalCount successCount failureCount evs.
         new_events (emit (login_call ''new.example'' ''bob'' ''s2'')
                       (emit (login_call ''https://old.example'' ''alice'' ''s1'') w0))
            (snd (main env_nginx_404 cfg0 w0)) =
             GetCharts # LogPrintf ''%d Helm charts to migrate'' totalCount # BarDefault totalCount #
             evs @ [LogPrintf ''%d Helm charts successfully migrated'' successCount]
         \<and> failureCount = int (length (filter is_diagnostic evs))
         \<and> totalCount = 2 \<and> successCount + failureCount = totalCount)"
proof -
  let ?w1 = "emit (login_call ''https://old.example'' ''alice'' ''s1'') w0"
  let ?w2 = "emit (login_call ''new.example'' ''bob'' ''s2'') ?w1"
  have a: "helmLogin env_nginx_404 (sourceHarborURL cfg0) (sourceHarborUsername cfg0)
             (sourceHarborPassword cfg0) w0 = (None, ?w1)"
    by (simp add: helmLogin_def Let_def helmBinaryPath_def login_call_def example_defs)
  have b: "helmLogin env_nginx_404 (destinationHarborURL cfg0) (destinationHarborUsername cfg0)
             (destinationHarborPassword cfg0) ?w1 = (None, ?w2)"
    by (simp add: helmLogin_def Let_def helmBinaryPath_def login_call_def example_defs)
  have d: "getHarborChartmuseumCharts env_nginx_404 ?w2 = Inr [chart_redis, chart_nginx]"
    by (simp add: example_defs)
  from reported_counts_add_up [OF a b d] obtain totalCount successCount failureCount evs where
    "new_events ?w2 (snd (main env_nginx_404 cfg0 w0)) =
             GetCharts # LogPrintf ''%d Helm charts to migrate'' totalCount # BarDefault totalCount #
             evs @ [LogPrintf ''%d Helm charts successfully migrated'' successCount]
         \<and> failureCount = int (length (filter is_diagnostic evs))
         \<and> totalCount = 2 \<and> successCount + failureCount = totalCount"
    by auto
  then have "\<exists>totalCount successCount failureCount evs.
         new_events ?w2 (snd (main env_nginx_404 cfg0 w0)) =
             GetCharts # LogPrintf ''%d Helm charts to migrate'' totalCount # BarDefault totalCount #
             evs @ [LogPrintf ''%d Helm charts successfully migrated'' successCount]
         \<and> failureCount = int (length (filter is_diagnostic evs))
         \<and> totalCount = 2 \<and> successCount + failureCount = totalCount"
    by blast
  with a d show ?thesis by blast
qed

text \<open>
  C4, as the specification states it, fails: the exit status says nothing about failures.
  A run in which both charts are migrated and a run in which one of the two fails (the
  source answers 404) both end with exit status 0; they differ only in what they log.
\<close>

theorem exit_status_counterexample:
  "fst (main env_ok cfg0 w0) = 0
   \<and> filter is_diagnostic (trace (snd (main env_ok cfg0 w0))) = []
   \<and> last (trace (snd (main env_ok cfg0 w0))) = LogPrintf ''%d Helm charts successfully migrated'' 2
   \<and> fst (main env_nginx_404 cfg0 w0) = 0
   \<and> filter is_diagnostic (trace (snd (main env_nginx_404 cfg0 w0))) =
       [LogPrintln (Wrap (Wrap (StatusErr 404) ''Failed to pull chart from source'')
                      ''Failed to migrate Helm chart'')]
   \<and> last (trace (snd (main env_nginx_404 cfg0 w0))) = LogPrintf ''%d Helm charts successfully migrated'' 1"
  by (simp add: model_defs example_defs)

text \<open>
  C4, amended. When both logins and the discovery succeed, the run goes through the whole
  list (the progress bar advances once per discovered chart), logs the number of charts
  migrated and ends with exit status 0, whatever the number of failures.
\<close>

theorem exit_status_is_zero_after_the_loop:
  assumes "helmLogin E (sourceHarborURL c) (sourceHarborUsername c) (sourceHarborPassword c) w = (None, w1)"
      and "helmLogin E (destinationHarborURL c) (destinationHarborUsername c)
             (destinationHarborPassword c) w1 = (None, w2)"
      and "getHarborChartmuseumCharts E w2 = Inr charts"
      and "migrateLoop E c charts
             (0, emit (BarDefault (int (length charts)))
                   (emit (LogPrintf ''%d Helm charts to migrate'' (int (length charts)))
                      (emit GetCharts w2))) = (errorCount, w5)"
  shows "main E c w =
           (0, emit (LogPrintf ''%d Helm charts successfully migrated''
                       (int (length charts) - errorCount)) w5)
       \<and> fst (main E c w) = 0
       \<and> length (filter is_bar_add (new_events w (snd (main E c w)))) = length charts
       \<and> errorCount = int (length (filter is_diagnostic (new_events w (snd (main E c w)))))"
proof -
  let ?n = "int (length charts)"
  let ?w4 = "emit (BarDefault ?n) (emit (LogPrintf ''%d Helm charts to migrate'' ?n) (emit GetCharts w2))"
  let ?src = "login_call (sourceHarborURL c) (sourceHarborUsername c) (sourceHarborPassword c)"
  let ?dst = "login_call (destinationHarborURL c) (destinationHarborUsername c) (destinationHarborPassword c)"
  have m: "main E c w =
           (0, emit (LogPrintf ''%d Helm charts successfully migrated'' (?n - errorCount)) w5)"
    by (rule main_transfers [OF assms])
  from loop_trace [of "\<lambda>ev. True" c E charts 0 ?w4] assms(4) obtain evs where
    e: "trace w5 = trace ?w4 @ evs"
       "errorCount = int (length (filter is_diagnostic evs))"
       "length (filter is_bar_add evs) = length charts"
    by (auto simp: list_all_iff)
  have w1: "w1 = emit ?src w"
    using login_world [of E "sourceHarborURL c" "sourceHarborUsername c" "sourceHarborPassword c" w]
      assms(1) by simp
  have w2: "w2 = emit ?dst w1"
    using login_world [of E "destinationHarborURL c" "destinationHarborUsername c"
                          "destinationHarborPassword c" w1] assms(2) by simp
  have "trace (snd (main E c w)) =
      trace w @ (?src # ?dst # GetCharts # LogPrintf ''%d Helm charts to migrate'' ?n # BarDefault ?n #
             evs @ [LogPrintf ''%d Helm charts successfully migrated'' (?n - errorCount)])"
    by (simp add: m e(1) w1 w2 trace_emit)
  then have "new_events w (snd (main E c w)) =
      ?src # ?dst # GetCharts # LogPrintf ''%d Helm charts to migrate'' ?n # BarDefault ?n #
             evs @ [LogPrintf ''%d Helm charts successfully migrated'' (?n - errorCount)]"
    by (rule new_events_append)
  with m e show ?thesis by (simp add: login_call_def)
qed

theorem exit_status_is_zero_after_the_loop_witness:
  "fst (main env_nginx_404 cfg0 w0) = 0
   \<and> length (filter is_bar_add (new_events w0 (snd (main env_nginx_404 cfg0 w0)))) = 2
   \<and> length (filter is_diagnostic (new_events w0 (snd (main env_nginx_404 cfg0 w0)))) = 1"
proof -
  let ?w1 = "emit (login_call ''https://old.example'' ''alice'' ''s1'') w0"
  let ?w2 = "emit (login_call ''new.example'' ''bob'' ''s2'') ?w1"
  let ?w4 = "emit (BarDefault (int (length [chart_redis, chart_nginx])))
                   (emit (LogPrintf ''%d Helm charts to migrate'' (int (length [chart_redis, chart_nginx])))
                      (emit GetCharts ?w2))"
  have a: "helmLogin env_nginx_404 (sourceHarborURL cfg0) (sourceHarborUsername cfg0)
             (sourceHarborPassword cfg0) w0 = (None, ?w1)"
    by (simp add: helmLogin_def Let_def helmBinaryPath_def login_call_def example_defs)
  have b: "helmLogin env_nginx_404 (destinationHarborURL cfg0) (destinationHarborUsername cfg0)
             (destinationHarborPassword cfg0) ?w1 = (None, ?w2)"
    by (simp add: helmLogin_def Let_def helmBinaryPath_def login_call_def example_defs)
  have d: "getHarborChartmuseumCharts env_nginx_404 ?w2 = Inr [chart_redis, chart_nginx]"
    by (simp add: example_defs)
  have l: "migrateLoop env_nginx_404 cfg0 [chart_redis, chart_nginx] (0, ?w4) =
     (1, snd (migrateLoop env_nginx_404 cfg0 [chart_redis, chart_nginx] (0, ?w4)))"
    by (simp add: model_defs call_defs example_defs)
  from exit_status_is_zero_after_the_loop [OF a b d l]
  have "fst (main env_nginx_404 cfg0 w0) = 0
      \<and> length (filter is_bar_add (new_events w0 (snd (main env_nginx_404 cfg0 w0)))) =
          length [chart_redis, chart_nginx]
      \<and> (1::int) = int (length (filter is_diagnostic (new_events w0 (snd (main env_nginx_404 cfg0 w0)))))"
    by blast
  then show ?thesis by simp
qed

subsection \<open>Timeouts\<close>

lemma main_events:
  assumes Q: "\<And>ev. \<not> is_fetch ev \<Longrightarrow> P ev" and F: "\<And>hc. P (fetch_call c hc)"
  shows "\<exists>evs. trace (snd (main E c w)) = trace w @ evs \<and> list_all P evs"
proof -
  let ?src = "login_call (sourceHarborURL c) (sourceHarborUsername c) (sourceHarborPassword c)"
  let ?dst = "login_call (destinationHarborURL c) (destinationHarborUsername c) (destinationHarborPassword c)"
  have S: "P ?src" and D: "P ?dst" and G: "P GetCharts"
    by (rule Q, simp add: login_call_def)+
  have L: "P (LogFatal e)" for e by (rule Q) simp
  have T: "list_all P (transfer_calls c hc body)" for hc body
  proof -
    have "P (persist_call hc body)" "P (push_call c hc)" "P (cleanup_call hc)"
      by (rule Q, simp add: persist_call_def push_call_def cleanup_call_def)+
    with F [of hc] show ?thesis by (simp add: transfer_calls_def)
  qed
  obtain r1 w1 where l1:
    "helmLogin E (sourceHarborURL c) (sourceHarborUsername c) (sourceHarborPassword c) w = (r1, w1)"
    by (cases "helmLogin E (sourceHarborURL c) (sourceHarborUsername c) (sourceHarborPassword c) w")
  have w1: "w1 = emit ?src w"
    using login_world [of E "sourceHarborURL c" "sourceHarborUsername c" "sourceHarborPassword c" w] l1
    by simp
  obtain r2 w2 where l2:
    "helmLogin E (destinationHarborURL c) (destinationHarborUsername c) (destinationHarborPassword c) w1
       = (r2, w2)"
    by (cases "helmLogin E (destinationHarborURL c) (destinationHarborUsername c)
                 (destinationHarborPassword c) w1")
  have w2: "w2 = emit ?dst w1"
    using login_world [of E "destinationHarborURL c" "destinationHarborUsername c"
                          "destinationHarborPassword c" w1] l2
    by simp
  show ?thesis
  proof (cases r1)
    case (Some e)
    let ?f = "LogFatal (Wrap e ''Failed to login to source Harbor'')"
    from l1 Some have "main E c w = (1, emit ?f w1)"
      by (simp add: main_source_login_fails log_Fatal_def)
    then have "trace (snd (main E c w)) = trace w @ [?src, ?f] \<and> list_all P [?src, ?f]"
      using S L by (simp add: w1 trace_emit)
    then show ?thesis by blast
  next
    case N1: None
    show ?thesis
    proof (cases r2)
      case (Some e)
      let ?f = "LogFatal (Wrap e ''Failed to login to destination Harbor'')"
      from l1 N1 l2 Some have "main E c w = (1, emit ?f w2)"
        by (simp add: main_destination_login_fails log_Fatal_def)
      then have "trace (snd (main E c w)) = trace w @ [?src, ?dst, ?f] \<and> list_all P [?src, ?dst, ?f]"
        using S D L by (simp add: w1 w2 trace_emit)
      then show ?thesis by blast
    next
      case N2: None
      show ?thesis
      proof (cases "getHarborChartmuseumCharts E w2")
        case (Inl e)
        let ?f = "LogFatal (Wrap e ''Failed to retrieve Helm charts from source'')"
        from l1 N1 l2 N2 Inl have "main E c w = (1, emit ?f (emit GetCharts w2))"
          by (simp add: main_discovery_fails log_Fatal_def)
        then have "trace (snd (main E c w)) = trace w @ [?src, ?dst, GetCharts, ?f] \<and>
            list_all P [?src, ?dst, GetCharts, ?f]"
          using S D G L by (simp add: w1 w2 trace_emit)
        then show ?thesis by blast
      next
        case (Inr charts)
        let ?n = "int (length charts)"
        let ?a = "LogPrintf ''%d Helm charts to migrate'' ?n"
        let ?w4 = "emit (BarDefault ?n) (emit ?a (emit GetCharts w2))"
        obtain errorCount w5 where l: "migrateLoop E c charts (0, ?w4) = (errorCount, w5)"
          by (cases "migrateLoop E c charts (0, ?w4)")
        let ?z = "LogPrintf ''%d Helm charts successfully migrated'' (?n - errorCount)"
        have A: "P ?a" "P (BarDefault ?n)" "P ?z" by (rule Q, simp)+
        have B: "P (BarAdd 1)" "\<And>e. P (LogPrintln e)" by (rule Q, simp)+
        from loop_trace [of P c E charts 0 ?w4, OF B T] l obtain evs where
          e: "trace w5 = trace ?w4 @ evs" "list_all P evs"
          by auto
        from l1 N1 l2 N2 Inr l have "main E c w = (0, emit ?z w5)"
          by (simp add: main_transfers)
        then have "trace (snd (main E c w)) =
            trace w @ (?src # ?dst # GetCharts # ?a # BarDefault ?n # evs @ [?z]) \<and>
            list_all P (?src # ?dst # GetCharts # ?a # BarDefault ?n # evs @ [?z])"
          using S D G A e by (simp add: w1 w2 trace_emit)
        then show ?thesis by blast
      qed
    qed
  qed
qed

text \<open>
  C8, as the specification states it, fails: in a run where every call succeeds, the login
  to the source registry and the push of the first chart are made, and neither has a bound
  on its duration.
\<close>

theorem only_the_fetch_has_a_timeout_counterexample:
  "login_call ''https://old.example'' ''alice'' ''s1'' \<in> set (new_events w0 (snd (main env_ok cfg0 w0)))
   \<and> call_timeout (login_call ''https://old.example'' ''alice'' ''s1'') = None
   \<and> push_call cfg0 chart_redis \<in> set (new_events w0 (snd (main env_ok cfg0 w0)))
   \<and> call_timeout (push_call cfg0 chart_redis) = None
   \<and> \<not> list_all (\<lambda>ev. call_timeout ev \<noteq> None)
          (filter (\<lambda>ev. is_fetch ev \<or> is_push ev \<or> is_login ev)
             (new_events w0 (snd (main env_ok cfg0 w0))))"
  by (simp add: new_events_def model_defs call_defs example_defs)

text \<open>
  C8, amended. In every run, each fetch is made by a client whose timeout is
  \<^verbatim>\<open>5 * time.Second\<close>, five thousand million nanoseconds, and no run of the \<^verbatim>\<open>helm\<close>
  binary (the logins and the pushes) has a timeout.
\<close>

theorem only_the_fetch_has_a_timeout:
  "timeout = 5 * Second \<and> Second = 1000000000
   \<and> list_all (\<lambda>ev. (is_fetch ev \<longrightarrow> call_timeout ev = Some (5 * Second)) \<and>
                    (is_cmd ev \<longrightarrow> call_timeout ev = None))
        (new_events w (snd (main E c w)))"
proof -
  let ?P = "\<lambda>ev. (is_fetch ev \<longrightarrow> call_timeout ev = Some (5 * Second)) \<and>
                  (is_cmd ev \<longrightarrow> call_timeout ev = None)"
  have q: "?P ev" if "\<not> is_fetch ev" for ev
    using that by (cases ev) simp_all
  have f: "?P (fetch_call c hc)" for hc
    by (simp add: fetch_call_def timeout_def Second_def)
  from main_events [of ?P c E w, OF q f] obtain evs where
    "trace (snd (main E c w)) = trace w @ evs" "list_all ?P evs"
    by blast
  then have "list_all ?P (new_events w (snd (main E c w)))"
    by (simp add: new_events_append)
  then show ?thesis by (simp add: timeout_def Second_def)
qed

theorem only_the_fetch_has_a_timeout_witness:
  "fetch_call cfg0 chart_redis \<in> set (new_events w0 (snd (main env_ok cfg0 w0)))
   \<and> is_fetch (fetch_call cfg0 chart_redis)
   \<and> call_timeout (fetch_call cfg0 chart_redis) = Some 5000000000"
proof -
  have m: "fetch_call cfg0 chart_redis \<in> set (new_events w0 (snd (main env_ok cfg0 w0)))"
    by (simp add: new_events_def model_defs call_defs example_defs)
  have i: "is_fetch (fetch_call cfg0 chart_redis)"
    by (simp add: fetch_call_def)
  from only_the_fetch_has_a_timeout [where E = env_ok and c = cfg0 and w = w0] m i
  have "call_timeout (fetch_call cfg0 chart_redis) = Some (5 * Second)" and "Second = 1000000000"
    by (auto simp: list_all_iff)
  with m i show ?thesis by simp
qed

end
